theory Spec2Isabelle
  imports Complex_Main "HOL-Library.Multiset"
begin

section \<open>Python values and errors\<close>

text \<open>
  The backend raises two kinds of exception: FastAPI's \<open>HTTPException(status_code, detail)\<close>,
  which reaches the client with that status, and every other Python exception
  (\<open>TypeError\<close>, \<open>ValueError\<close>, \<open>httpx\<close> transport errors, ...), which no handler of the
  services catches. The status codes carry the error kinds of the specification:
  404 is NotFound, 400 is AlreadyAnswered, 502 is UpstreamInvalid, 503 is UpstreamUnavailable.
\<close>

datatype error = HTTPException nat string | PyError string

text \<open>
  What \<open>json.loads\<close> can return. A finite float is the rational it denotes; \<open>NaN\<close> and the
  two infinities, which Python's parser accepts, are \<open>JNaN\<close> and \<open>JInfinity\<close>. An object is
  the list of its items in order (the parser keeps one item per key).
\<close>

datatype json =
    JNull
  | JBool bool
  | JInt int
  | JFloat rat
  | JNaN
  | JInfinity
  | JStr string
  | JArr "json list"
  | JObj "(string \<times> json) list"

text \<open>Truth value of a Python object (\<open>not x\<close>, \<open>if x:\<close>).\<close>

fun truthy :: "json \<Rightarrow> bool" where
  "truthy JNull = False"
| "truthy (JBool b) = b"
| "truthy (JInt i) = (i \<noteq> 0)"
| "truthy (JFloat r) = (r \<noteq> 0)"
| "truthy JNaN = True"
| "truthy JInfinity = True"
| "truthy (JStr s) = (s \<noteq> [])"
| "truthy (JArr xs) = (xs \<noteq> [])"
| "truthy (JObj kvs) = (kvs \<noteq> [])"

text \<open>\<open>len(x)\<close>: defined on strings, lists and dicts; a \<open>TypeError\<close> elsewhere.\<close>

fun py_len :: "json \<Rightarrow> error + nat" where
  "py_len (JStr s) = Inr (length s)"
| "py_len (JArr xs) = Inr (length xs)"
| "py_len (JObj kvs) = Inr (length kvs)"
| "py_len _ = Inl (PyError ''TypeError'')"

text \<open>
  \<open>x[:stop]\<close>: a negative stop counts from the end. Strings and lists can be sliced; every
  other value raises.
\<close>

definition slice_stop :: "nat \<Rightarrow> int \<Rightarrow> nat" where
  "slice_stop n stop = (if stop < 0 then nat (int n + stop) else nat stop)"

fun py_slice :: "json \<Rightarrow> int \<Rightarrow> error + json" where
  "py_slice (JStr s) stop = Inr (JStr (take (slice_stop (length s) stop) s))"
| "py_slice (JArr xs) stop = Inr (JArr (take (slice_stop (length xs) stop) xs))"
| "py_slice _ stop = Inl (PyError ''TypeError'')"

text \<open>
  \<open>int(x)\<close>. A float is truncated towards zero. How Python reads an integer out of a
  string (whitespace, sign, underscores, digit limits) is the interpreter's business: the
  parser is the parameter \<open>str_int\<close>, \<open>None\<close> where it raises \<open>ValueError\<close>.
\<close>

fun py_int :: "(string \<Rightarrow> int option) \<Rightarrow> json \<Rightarrow> error + int" where
  "py_int str_int (JInt i) = Inr i"
| "py_int str_int (JBool b) = Inr (if b then 1 else 0)"
| "py_int str_int (JFloat r) = Inr (if 0 \<le> r then floor r else ceiling r)"
| "py_int str_int JNaN = Inl (PyError ''ValueError'')"
| "py_int str_int JInfinity = Inl (PyError ''OverflowError'')"
| "py_int str_int (JStr s) =
     (case str_int s of Some i \<Rightarrow> Inr i | None \<Rightarrow> Inl (PyError ''ValueError''))"
| "py_int str_int _ = Inl (PyError ''TypeError'')"

text \<open>\<open>d.get(k, default)\<close>; only a dict has the method.\<close>

fun dict_get :: "json \<Rightarrow> string \<Rightarrow> json \<Rightarrow> error + json" where
  "dict_get (JObj kvs) k d = Inr (case map_of kvs k of None \<Rightarrow> d | Some v \<Rightarrow> v)"
| "dict_get _ k d = Inl (PyError ''AttributeError'')"

text \<open>\<open>d[k]\<close> on the items of a dict.\<close>

definition dict_item :: "(string \<times> json) list \<Rightarrow> string \<Rightarrow> error + json" where
  "dict_item kvs k = (case map_of kvs k of None \<Rightarrow> Inl (PyError ''KeyError'') | Some v \<Rightarrow> Inr v)"

text \<open>Iterating a value in a \<open>for\<close> loop: a string yields its characters, a dict its keys.\<close>

fun py_iter :: "json \<Rightarrow> error + json list" where
  "py_iter (JArr xs) = Inr xs"
| "py_iter (JStr s) = Inr (map (\<lambda>c. JStr [c]) s)"
| "py_iter (JObj kvs) = Inr (map (\<lambda>kv. JStr (fst kv)) kvs)"
| "py_iter _ = Inl (PyError ''TypeError'')"

section \<open>The AI service (app/services/ai\_service.py)\<close>

text \<open>
  The provider is outside the program: one call is summarised by what it does to the code
  that receives it. \<open>client.post\<close> either raises (timeout, connection failure) or returns a
  response; inside the \<open>try\<close> block of \<open>_extract_json\<close> the response either makes
  \<open>raise_for_status\<close> raise \<open>HTTPStatusError\<close>, makes a parser raise \<open>JSONDecodeError\<close>, makes a
  subscript raise \<open>KeyError\<close>, raises something else (\<open>IndexError\<close> on an empty \<open>choices\<close>),
  or yields the value of \<open>json.loads(raw_text)\<close>. The strings are \<open>str(e)\<close>.
\<close>

datatype response =
    HTTPStatusError string
  | JSONDecodeError string
  | KeyError string
  | OtherError string
  | Content json

datatype post_result = Raised string | Returned response

definition extract_json :: "response \<Rightarrow> string \<Rightarrow> error + json" where
  "extract_json response ctxt =
     (case response of
        Content data \<Rightarrow> Inr data
      | JSONDecodeError e \<Rightarrow>
          Inl (HTTPException 502 (''AI returned invalid response during '' @ ctxt @ '': '' @ e))
      | KeyError e \<Rightarrow>
          Inl (HTTPException 502 (''AI returned invalid response during '' @ ctxt @ '': '' @ e))
      | HTTPStatusError e \<Rightarrow> Inl (HTTPException 503 (''AI service error: '' @ e))
      | OtherError e \<Rightarrow> Inl (PyError e))"

text \<open>
  \<open>generate_questions(role, difficulty, count)\<close>. Role and difficulty only enter the prompt,
  so the model takes the outcome of the call instead; \<open>cnt\<close> is \<open>count\<close>. The result
  is the slice \<open>questions[:count]\<close>, a list or, when the provider sent a string, a string.
\<close>

definition generate_questions :: "post_result \<Rightarrow> int \<Rightarrow> error + json" where
  "generate_questions post cnt =
     (case post of
        Raised e \<Rightarrow> Inl (PyError e)
      | Returned response \<Rightarrow>
          (case extract_json response ''question generation'' of
             Inl e \<Rightarrow> Inl e
           | Inr data \<Rightarrow>
               (case dict_get data ''questions'' (JArr []) of
                  Inl e \<Rightarrow> Inl e
                | Inr questions \<Rightarrow>
                    if \<not> truthy questions
                    then Inl (HTTPException 502
                           ''AI did not return the expected number of questions.'')
                    else
                      (case py_len questions of
                         Inl e \<Rightarrow> Inl e
                       | Inr n \<Rightarrow>
                           if int n < cnt
                           then Inl (HTTPException 502
                                  ''AI did not return the expected number of questions.'')
                           else py_slice questions cnt))))"

text \<open>
  \<open>evaluate_answer\<close> returns the parsed dict after overwriting three of its keys. Its only
  caller reads the four required keys, so the model returns those four: the score as the
  integer it has become, the other three as the values they are.
\<close>

record feedback_data =
  d_score :: int
  d_overall_feedback :: json
  d_strengths :: json
  d_improvements :: json

definition required_keys :: "string list" where
  "required_keys = [''score'', ''overall_feedback'', ''strengths'', ''improvements'']"

definition evaluate_answer :: "(string \<Rightarrow> int option) \<Rightarrow> post_result \<Rightarrow> error + feedback_data" where
  "evaluate_answer str_int post =
     (case post of
        Raised e \<Rightarrow> Inl (PyError e)
      | Returned response \<Rightarrow>
          (case extract_json response ''answer evaluation'' of
             Inl e \<Rightarrow> Inl e
           | Inr (JObj kvs) \<Rightarrow>
               if \<not> list_all (\<lambda>k. map_of kvs k \<noteq> None) required_keys
               then Inl (HTTPException 502 ''AI response missing required feedback fields.'')
               else
                 (case dict_item kvs ''score'' of
                    Inl e \<Rightarrow> Inl e
                  | Inr sc \<Rightarrow>
                 (case py_int str_int sc of
                    Inl e \<Rightarrow> Inl e
                  | Inr i \<Rightarrow>
                 (case dict_get (JObj kvs) ''strengths'' (JArr []) of
                    Inl e \<Rightarrow> Inl e
                  | Inr st \<Rightarrow>
                 (case py_slice st 5 of
                    Inl e \<Rightarrow> Inl e
                  | Inr st5 \<Rightarrow>
                 (case dict_get (JObj kvs) ''improvements'' (JArr []) of
                    Inl e \<Rightarrow> Inl e
                  | Inr im \<Rightarrow>
                 (case py_slice im 5 of
                    Inl e \<Rightarrow> Inl e
                  | Inr im5 \<Rightarrow>
                 (case dict_item kvs ''overall_feedback'' of
                    Inl e \<Rightarrow> Inl e
                  | Inr ov \<Rightarrow>
                      Inr \<lparr>d_score = max 0 (min 100 i), d_overall_feedback = ov,
                           d_strengths = st5, d_improvements = im5\<rparr>)))))))
           | Inr _ \<Rightarrow> Inl (PyError ''AttributeError'')))"

section \<open>The tables and the ORM session (alembic migration, app/db/session.py)\<close>

text \<open>
  The rows of the three interview tables, column by column as the alembic migration
  creates them (the ORM classes of app/models/interview.py are not among the sources),
  with the columns the services read or write: the \<open>updated_at\<close> columns and the
  timestamps of questions and feedback are read nowhere. A row keeps the Python value it
  was given. What an engine does with a value that does not fit its column is not
  modelled, so what the statements below say is persisted, they say for values of the
  column's type. A timestamp is a number of time units.
\<close>

record interview_session =
  s_id :: string
  user_id :: string
  role :: string
  difficulty :: string
  question_count :: int
  final_score :: "rat option"
  is_completed :: string
  created_at :: int

record interview_question =
  q_id :: string
  session_id :: string
  question_text :: json
  user_answer :: "string option"
  order_index :: int

record question_feedback =
  f_id :: string
  question_id :: string
  score :: int
  overall_feedback :: json
  strengths :: json
  improvements :: json

record db =
  sessions :: "interview_session list"
  questions :: "interview_question list"
  feedbacks :: "question_feedback list"

text \<open>
  A SQLAlchemy session is a unit of work over a transaction. \<open>database\<close> is what is
  committed, \<open>tx\<close> is the database as the open transaction sees it (committed rows and
  what this session has flushed), and \<open>pending\<close> holds the objects added and the loaded
  objects changed since the last flush. \<open>SessionLocal\<close> is made with
  \<open>autoflush=False\<close>: a query does not flush first, so it reads \<open>tx\<close> and sees
  nothing that is pending.
\<close>

datatype entity = S interview_session | Q interview_question | F question_feedback

datatype pending_op = Insert entity | Update entity

record orm =
  database :: db
  tx :: db
  pending :: "pending_op list"

fun apply_op :: "db \<Rightarrow> pending_op \<Rightarrow> db" where
  "apply_op d (Insert (S s)) = d\<lparr>sessions := sessions d @ [s]\<rparr>"
| "apply_op d (Insert (Q q)) = d\<lparr>questions := questions d @ [q]\<rparr>"
| "apply_op d (Insert (F f)) = d\<lparr>feedbacks := feedbacks d @ [f]\<rparr>"
| "apply_op d (Update (S s)) =
     d\<lparr>sessions := map (\<lambda>r. if s_id r = s_id s then s else r) (sessions d)\<rparr>"
| "apply_op d (Update (Q q)) =
     d\<lparr>questions := map (\<lambda>r. if q_id r = q_id q then q else r) (questions d)\<rparr>"
| "apply_op d (Update (F f)) =
     d\<lparr>feedbacks := map (\<lambda>r. if f_id r = f_id f then f else r) (feedbacks d)\<rparr>"

definition SessionLocal :: "db \<Rightarrow> orm" where
  "SessionLocal d = \<lparr>database = d, tx = d, pending = []\<rparr>"

definition db_add :: "entity \<Rightarrow> orm \<Rightarrow> orm" where
  "db_add e u = u\<lparr>pending := pending u @ [Insert e]\<rparr>"

text \<open>Assigning to an attribute of a loaded object marks the object as changed.\<close>

definition db_dirty :: "entity \<Rightarrow> orm \<Rightarrow> orm" where
  "db_dirty e u = u\<lparr>pending := pending u @ [Update e]\<rparr>"

definition db_flush :: "orm \<Rightarrow> orm" where
  "db_flush u = u\<lparr>tx := foldl apply_op (tx u) (pending u), pending := []\<rparr>"

definition db_commit :: "orm \<Rightarrow> orm" where
  "db_commit u = (let u' = db_flush u in u'\<lparr>database := tx u'\<rparr>)"

definition db_rollback :: "orm \<Rightarrow> orm" where
  "db_rollback u = u\<lparr>tx := database u, pending := []\<rparr>"

definition db_close :: "orm \<Rightarrow> orm" where
  "db_close u = u\<lparr>tx := database u, pending := []\<rparr>"

text \<open>
  \<open>get_db\<close>, the dependency every endpoint runs in: a fresh session, the endpoint's body,
  a rollback when the body raises, and the close in every case. What the next request
  reads is the committed database.
\<close>

definition get_db :: "(orm \<Rightarrow> (error + 'a) \<times> orm) \<Rightarrow> db \<Rightarrow> (error + 'a) \<times> db" where
  "get_db body d =
     (case body (SessionLocal d) of
        (Inl e, u) \<Rightarrow> (Inl e, database (db_close (db_rollback u)))
      | (Inr r, u) \<Rightarrow> (Inr r, database (db_close u)))"

section \<open>The interview service (app/services/interview\_service.py)\<close>

record start_interview_request =
  req_role :: string
  req_difficulty :: string
  req_question_count :: int

text \<open>
  Modelled from the spec: the relationship \<open>InterviewSession.questions\<close> of
  app/models/interview.py, which is not among the sources. "Returns the full session with
  its ordered questions": the response holds the session's row and the rows of its
  questions.
\<close>

record session_response =
  r_session :: interview_session
  r_questions :: "interview_question list"

definition session_response_of :: "string \<Rightarrow> db \<Rightarrow> interview_session \<Rightarrow> session_response" where
  "session_response_of sid d s =
     \<lparr>r_session = (case find (\<lambda>r. s_id r = sid) (sessions d) of Some r \<Rightarrow> r | None \<Rightarrow> s),
      r_questions = filter (\<lambda>q. session_id q = sid) (questions d)\<rparr>"

text \<open>
  \<open>start_session\<close>. The identifiers come from \<open>uuid.uuid4()\<close>: \<open>sid\<close> for the session and
  \<open>qid idx\<close> for the question made in round \<open>idx\<close> of the loop. \<open>now\<close> is the database
  clock that fills \<open>created_at\<close>, and \<open>is_completed\<close> starts at the column's default.
\<close>

definition new_question :: "(nat \<Rightarrow> string) \<Rightarrow> string \<Rightarrow> nat \<times> json \<Rightarrow> interview_question" where
  "new_question qid sid it =
     \<lparr>q_id = qid (fst it), session_id = sid, question_text = snd it,
      user_answer = None, order_index = int (fst it)\<rparr>"

definition start_session ::
  "post_result \<Rightarrow> string \<Rightarrow> (nat \<Rightarrow> string) \<Rightarrow> int \<Rightarrow> string \<Rightarrow> start_interview_request \<Rightarrow>
     orm \<Rightarrow> (error + session_response) \<times> orm" where
  "start_session post sid qid now uid data u =
     (let session = \<lparr>s_id = sid, user_id = uid, role = req_role data,
                      difficulty = req_difficulty data,
                      question_count = req_question_count data,
                      final_score = None, is_completed = ''false'', created_at = now\<rparr>;
          u1 = db_flush (db_add (S session) u)
      in case generate_questions post (req_question_count data) of
           Inl e \<Rightarrow> (Inl e, u1)
         | Inr question_texts \<Rightarrow>
             (case py_iter question_texts of
                Inl e \<Rightarrow> (Inl e, u1)
              | Inr texts \<Rightarrow>
                  (let u2 = fold (\<lambda>it. db_add (Q (new_question qid sid it)))
                              (enumerate 0 texts) u1;
                       u3 = db_commit u2
                   in (Inr (session_response_of sid (tx u3) session), u3))))"

definition get_session_for_user :: "string \<Rightarrow> string \<Rightarrow> orm \<Rightarrow> error + interview_session" where
  "get_session_for_user sid uid u =
     (case find (\<lambda>s. s_id s = sid \<and> user_id s = uid) (sessions (tx u)) of
        None \<Rightarrow> Inl (HTTPException 404 ''Session not found.'')
      | Some session \<Rightarrow> Inr session)"

record submit_answer_response =
  r_question_id :: string
  r_feedback :: question_feedback
  is_last_question :: bool
  session_complete :: bool

text \<open>
  The feedback rows of a session: \<open>query(QuestionFeedback).join(InterviewQuestion)\<close>
  filtered on the question's session.
\<close>

definition session_feedback :: "string \<Rightarrow> db \<Rightarrow> question_feedback list" where
  "session_feedback sid d =
     [f. f \<leftarrow> feedbacks d, q \<leftarrow> questions d, q_id q = question_id f, session_id q = sid]"

definition answered_count :: "string \<Rightarrow> db \<Rightarrow> nat" where
  "answered_count sid d =
     length (filter (\<lambda>q. session_id q = sid \<and> user_answer q \<noteq> None) (questions d))"

text \<open>
  \<open>sum(all_scores) / len(all_scores)\<close>: the quotient of two integers, here the exact
  rational (Python rounds it to the nearest float).
\<close>

definition mean :: "int list \<Rightarrow> rat" where
  "mean xs = of_int (sum_list xs) / of_nat (length xs)"

text \<open>
  \<open>submit_answer\<close>. \<open>post\<close> is the outcome of the evaluation call and \<open>fid\<close> the
  identifier drawn for the feedback. \<open>if question.user_answer:\<close> is a truth test: the
  empty string passes it as \<open>None\<close> does. The count of answered questions and the
  feedback rows of the session are queries: they read the transaction, in which neither
  the answer just assigned nor the feedback just added has been flushed. The one commit
  is the last step.
\<close>

definition submit_answer ::
  "(string \<Rightarrow> int option) \<Rightarrow> post_result \<Rightarrow> string \<Rightarrow> string \<Rightarrow> string \<Rightarrow> string \<Rightarrow> string \<Rightarrow>
     orm \<Rightarrow> (error + submit_answer_response) \<times> orm" where
  "submit_answer str_int post fid sid qid uid answer u =
     (case get_session_for_user sid uid u of
        Inl e \<Rightarrow> (Inl e, u)
      | Inr session \<Rightarrow>
          (case find (\<lambda>q. q_id q = qid \<and> session_id q = sid) (questions (tx u)) of
             None \<Rightarrow> (Inl (HTTPException 404 ''Question not found.''), u)
           | Some question \<Rightarrow>
               if user_answer question \<noteq> None \<and> user_answer question \<noteq> Some []
               then (Inl (HTTPException 400 ''This question has already been answered.''), u)
               else
                 (let u1 = db_dirty (Q (question\<lparr>user_answer := Some answer\<rparr>)) u
                  in case evaluate_answer str_int post of
                       Inl e \<Rightarrow> (Inl e, u1)
                     | Inr feedback_data \<Rightarrow>
                         (let feedback =
                                \<lparr>f_id = fid, question_id = q_id question,
                                 score = d_score feedback_data,
                                 overall_feedback = d_overall_feedback feedback_data,
                                 strengths = d_strengths feedback_data,
                                 improvements = d_improvements feedback_data\<rparr>;
                              u2 = db_add (F feedback) u1;
                              is_last = (question_count session \<le> int (answered_count sid (tx u2)));
                              u3 = (if is_last
                                    then
                                      (let all_feedback = session_feedback sid (tx u2);
                                           all_scores = map score all_feedback
                                                          @ [d_score feedback_data]
                                       in db_dirty (S (session\<lparr>final_score := Some (mean all_scores),
                                                              is_completed := ''true''\<rparr>)) u2)
                                    else u2);
                              u4 = db_commit u3
                          in (Inr \<lparr>r_question_id = qid, r_feedback = feedback,
                                   is_last_question = is_last, session_complete = is_last\<rparr>,
                              u4)))))"

record session_history_item =
  h_id :: string
  h_role :: string
  h_difficulty :: string
  h_question_count :: int
  h_score :: rat
  h_completed_at :: int

text \<open>
  \<open>get_history\<close>. The rows in \<open>created_at\<close> descending order are a stable sort of the
  table. \<open>limit\<close> is any Python integer, bound as the parameter of \<open>LIMIT\<close>. The engine is
  the one of the default \<open>DATABASE_URL\<close>, SQLite: its driver raises \<open>OverflowError\<close> for
  an integer outside the signed 64-bit range, and a negative \<open>LIMIT\<close> puts no bound on
  the rows returned. \<open>s.final_score or 0.0\<close> is again a truth test.
\<close>

definition sql_limit :: "int \<Rightarrow> 'a list \<Rightarrow> error + 'a list" where
  "sql_limit limit rows =
     (if limit < - (2 ^ 63) \<or> 2 ^ 63 \<le> limit then Inl (PyError ''OverflowError'')
      else if limit < 0 then Inr rows
      else Inr (take (nat limit) rows))"

definition history_item :: "interview_session \<Rightarrow> session_history_item" where
  "history_item s =
     \<lparr>h_id = s_id s, h_role = role s, h_difficulty = difficulty s,
      h_question_count = question_count s,
      h_score = (case final_score s of None \<Rightarrow> 0 | Some x \<Rightarrow> if x = 0 then 0 else x),
      h_completed_at = created_at s\<rparr>"

definition completed_sessions :: "string \<Rightarrow> db \<Rightarrow> interview_session list" where
  "completed_sessions uid d =
     filter (\<lambda>s. user_id s = uid \<and> is_completed s = ''true'') (sessions d)"

definition get_history :: "string \<Rightarrow> int \<Rightarrow> orm \<Rightarrow> error + session_history_item list" where
  "get_history uid limit u =
     (case sql_limit limit
             (sort_key (\<lambda>s. - created_at s) (completed_sessions uid (tx u))) of
        Inl e \<Rightarrow> Inl e
      | Inr rows \<Rightarrow> Inr (map history_item rows))"

section \<open>Notions used in the statements\<close>

text \<open>
  The rows the two services build: the session \<open>start_session\<close> inserts, the feedback
  \<open>submit_answer\<close> inserts, and the session row as the completing branch rewrites it.
\<close>

definition new_session :: "string \<Rightarrow> int \<Rightarrow> string \<Rightarrow> start_interview_request \<Rightarrow> interview_session" where
  "new_session sid now uid data =
     \<lparr>s_id = sid, user_id = uid, role = req_role data, difficulty = req_difficulty data,
      question_count = req_question_count data, final_score = None,
      is_completed = ''false'', created_at = now\<rparr>"

definition feedback_of :: "string \<Rightarrow> interview_question \<Rightarrow> feedback_data \<Rightarrow> question_feedback" where
  "feedback_of fid question fd =
     \<lparr>f_id = fid, question_id = q_id question, score = d_score fd,
      overall_feedback = d_overall_feedback fd, strengths = d_strengths fd,
      improvements = d_improvements fd\<rparr>"

definition completed_row :: "interview_session \<Rightarrow> int list \<Rightarrow> interview_session" where
  "completed_row session all_scores =
     session\<lparr>final_score := Some (mean all_scores), is_completed := ''true''\<rparr>"

text \<open>
  No answer column holds the empty string. \<open>start_session\<close> leaves the column null and
  \<open>submit_answer\<close> writes the answer of a \<open>SubmitAnswerRequest\<close>, which the schema keeps
  to 1 to 5000 characters.
\<close>

definition no_blank :: "db \<Rightarrow> bool" where
  "no_blank d = list_all (\<lambda>q. user_answer q \<noteq> Some []) (questions d)"


section \<open>Concrete data\<close>

text \<open>
  Inputs on which the properties below are evaluated: a three-question session of user
  \<open>u1\<close> as \<open>start_session\<close> leaves it, the same session after two and after three
  answers, and provider replies.
\<close>

definition never_int :: "string \<Rightarrow> int option" where
  "never_int s = None"

definition evaluation_reply :: "json \<Rightarrow> json \<Rightarrow> post_result" where
  "evaluation_reply sc st =
     Returned (Content (JObj [(''score'', sc), (''overall_feedback'', JStr ''Good.''),
       (''strengths'', st), (''improvements'', JArr [JStr ''Be concrete''])]))"

definition example_request :: start_interview_request where
  "example_request =
     \<lparr>req_role = ''Backend Engineer'', req_difficulty = ''Easy'', req_question_count = 3\<rparr>"

definition example_session :: interview_session where
  "example_session =
     \<lparr>s_id = ''s1'', user_id = ''u1'', role = ''Backend Engineer'', difficulty = ''Easy'',
      question_count = 3, final_score = None, is_completed = ''false'', created_at = 10\<rparr>"

definition example_qid :: "nat \<Rightarrow> string" where
  "example_qid i = (if i = 0 then ''q0'' else if i = 1 then ''q1'' else ''q2'')"

definition example_question :: "string \<Rightarrow> int \<Rightarrow> string option \<Rightarrow> interview_question" where
  "example_question i n a =
     \<lparr>q_id = i, session_id = ''s1'', question_text = JStr (''Question '' @ i),
      user_answer = a, order_index = n\<rparr>"

definition example_feedback :: "string \<Rightarrow> string \<Rightarrow> int \<Rightarrow> question_feedback" where
  "example_feedback i q n =
     \<lparr>f_id = i, question_id = q, score = n, overall_feedback = JStr ''Good.'',
      strengths = JArr [], improvements = JArr [JStr ''Be concrete'']\<rparr>"

definition questions_reply :: "json list \<Rightarrow> post_result" where
  "questions_reply qs = Returned (Content (JObj [(''questions'', JArr qs)]))"

definition empty_db :: db where
  "empty_db = \<lparr>sessions = [], questions = [], feedbacks = []\<rparr>"

definition started :: db where
  "started =
     \<lparr>sessions = [example_session],
      questions = [example_question ''q0'' 0 None, example_question ''q1'' 1 None,
                   example_question ''q2'' 2 None],
      feedbacks = []\<rparr>"

definition one_answered :: db where
  "one_answered =
     \<lparr>sessions = [example_session],
      questions = [example_question ''q0'' 0 (Some ''a0''), example_question ''q1'' 1 None,
                   example_question ''q2'' 2 None],
      feedbacks = [example_feedback ''f0'' ''q0'' 80]\<rparr>"

definition two_answered :: db where
  "two_answered =
     \<lparr>sessions = [example_session],
      questions = [example_question ''q0'' 0 (Some ''a0''),
                   example_question ''q1'' 1 (Some ''a1''),
                   example_question ''q2'' 2 None],
      feedbacks = [example_feedback ''f0'' ''q0'' 80, example_feedback ''f1'' ''q1'' 90]\<rparr>"

definition all_answered :: db where
  "all_answered =
     \<lparr>sessions = [example_session],
      questions = [example_question ''q0'' 0 (Some ''a0''),
                   example_question ''q1'' 1 (Some ''a1''),
                   example_question ''q2'' 2 (Some ''a2'')],
      feedbacks = [example_feedback ''f0'' ''q0'' 80, example_feedback ''f1'' ''q1'' 90,
                   example_feedback ''f2'' ''q2'' 70]\<rparr>"

definition third_response :: submit_answer_response where
  "third_response =
     \<lparr>r_question_id = ''q2'', r_feedback = example_feedback ''f2'' ''q2'' 70,
      is_last_question = False, session_complete = False\<rparr>"




definition history_session :: "string \<Rightarrow> string \<Rightarrow> string \<Rightarrow> rat option \<Rightarrow> int \<Rightarrow> interview_session" where
  "history_session i u c f t =
     \<lparr>s_id = i, user_id = u, role = ''Backend Engineer'', difficulty = ''Easy'',
      question_count = 3, final_score = f, is_completed = c, created_at = t\<rparr>"

definition history_db :: db where
  "history_db =
     \<lparr>sessions = [history_session ''s1'' ''u1'' ''true'' (Some 80) 10,
                  history_session ''s2'' ''u1'' ''true'' None 30,
                  history_session ''s3'' ''u2'' ''true'' (Some 50) 40,
                  history_session ''s4'' ''u1'' ''false'' None 50,
                  history_session ''s5'' ''u1'' ''true'' (Some 60) 20],
      questions = [], feedbacks = []\<rparr>"

section \<open>Properties of the AI service\<close>

lemma py_slice_5_len: "py_slice v 5 = Inr w \<Longrightarrow> \<exists>n. py_len w = Inr n \<and> n \<le> 5"
  by (cases v) (auto simp: slice_stop_def)

text \<open>
  What \<open>evaluate_answer\<close> does with a parsed JSON object. It fails with status 502
  (UpstreamInvalid) when one of the keys score, overall\_feedback, strengths, improvements
  is missing. When all four are there, \<open>int()\<close> accepts the score and the two lists can be
  sliced, it returns the score clamped into 0..100 (never rejected for being out of range)
  and strengths and improvements cut to their first five entries.
\<close>

lemma evaluate_answer_validates_and_clamps:
  "(\<not> list_all (\<lambda>k. map_of kvs k \<noteq> None) required_keys \<longrightarrow>
      evaluate_answer str_int (Returned (Content (JObj kvs))) =
        Inl (HTTPException 502 ''AI response missing required feedback fields.''))
   \<and> (map_of kvs ''score'' = Some sc \<and> map_of kvs ''overall_feedback'' = Some ov \<and>
      map_of kvs ''strengths'' = Some st \<and> map_of kvs ''improvements'' = Some im \<and>
      py_int str_int sc = Inr i \<and> py_slice st 5 = Inr st5 \<and> py_slice im 5 = Inr im5 \<longrightarrow>
      evaluate_answer str_int (Returned (Content (JObj kvs))) =
        Inr \<lparr>d_score = max 0 (min 100 i), d_overall_feedback = ov,
             d_strengths = st5, d_improvements = im5\<rparr>
      \<and> 0 \<le> max 0 (min 100 i) \<and> max 0 (min 100 i) \<le> 100
      \<and> (\<exists>n. py_len st5 = Inr n \<and> n \<le> 5) \<and> (\<exists>n. py_len im5 = Inr n \<and> n \<le> 5))"
proof (intro conjI impI)
  assume "\<not> list_all (\<lambda>k. map_of kvs k \<noteq> None) required_keys"
  then show "evaluate_answer str_int (Returned (Content (JObj kvs))) =
        Inl (HTTPException 502 ''AI response missing required feedback fields.'')"
    by (simp add: evaluate_answer_def extract_json_def)
next
  assume h: "map_of kvs ''score'' = Some sc \<and> map_of kvs ''overall_feedback'' = Some ov \<and>
      map_of kvs ''strengths'' = Some st \<and> map_of kvs ''improvements'' = Some im \<and>
      py_int str_int sc = Inr i \<and> py_slice st 5 = Inr st5 \<and> py_slice im 5 = Inr im5"
  then have "list_all (\<lambda>k. map_of kvs k \<noteq> None) required_keys"
    by (simp add: required_keys_def)
  with h show "evaluate_answer str_int (Returned (Content (JObj kvs))) =
        Inr \<lparr>d_score = max 0 (min 100 i), d_overall_feedback = ov,
             d_strengths = st5, d_improvements = im5\<rparr>"
    by (simp add: evaluate_answer_def extract_json_def dict_item_def)
  show "0 \<le> max 0 (min 100 i)" by simp
  show "max 0 (min 100 i) \<le> 100" by simp
  from h show "\<exists>n. py_len st5 = Inr n \<and> n \<le> 5" by (blast dest: py_slice_5_len)
  from h show "\<exists>n. py_len im5 = Inr n \<and> n \<le> 5" by (blast dest: py_slice_5_len)
qed

text \<open>
  Three replies: one with a key missing, one with score 150 and eight strengths (returned
  as 100 and five), one with score -5 (returned as 0).
\<close>

lemma evaluate_answer_clamps_examples:
  "evaluate_answer never_int (Returned (Content (JObj [(''score'', JInt 150)]))) =
     Inl (HTTPException 502 ''AI response missing required feedback fields.'')
   \<and> evaluate_answer never_int
       (evaluation_reply (JInt 150)
          (JArr [JStr ''a'', JStr ''b'', JStr ''c'', JStr ''d'', JStr ''e'', JStr ''f'',
                 JStr ''g'', JStr ''h''])) =
     Inr \<lparr>d_score = 100, d_overall_feedback = JStr ''Good.'',
          d_strengths = JArr [JStr ''a'', JStr ''b'', JStr ''c'', JStr ''d'', JStr ''e''],
          d_improvements = JArr [JStr ''Be concrete'']\<rparr>
   \<and> evaluate_answer never_int (evaluation_reply (JInt (- 5)) (JArr [])) =
     Inr \<lparr>d_score = 0, d_overall_feedback = JStr ''Good.'',
          d_strengths = JArr [], d_improvements = JArr [JStr ''Be concrete'']\<rparr>"
  using evaluate_answer_validates_and_clamps
      [of "[(''score'', JInt 150)]" never_int]
    evaluate_answer_validates_and_clamps
      [of "[(''score'', JInt 150), (''overall_feedback'', JStr ''Good.''),
            (''strengths'', JArr [JStr ''a'', JStr ''b'', JStr ''c'', JStr ''d'', JStr ''e'',
                                  JStr ''f'', JStr ''g'', JStr ''h'']),
            (''improvements'', JArr [JStr ''Be concrete''])]"
          never_int "JInt 150" "JStr ''Good.''"
          "JArr [JStr ''a'', JStr ''b'', JStr ''c'', JStr ''d'', JStr ''e'', JStr ''f'',
                 JStr ''g'', JStr ''h'']"
          "JArr [JStr ''Be concrete'']" 150
          "JArr [JStr ''a'', JStr ''b'', JStr ''c'', JStr ''d'', JStr ''e'']"
          "JArr [JStr ''Be concrete'']"]
    evaluate_answer_validates_and_clamps
      [of "[(''score'', JInt (- 5)), (''overall_feedback'', JStr ''Good.''),
            (''strengths'', JArr []), (''improvements'', JArr [JStr ''Be concrete''])]"
          never_int "JInt (- 5)" "JStr ''Good.''" "JArr []" "JArr [JStr ''Be concrete'']" "- 5"
          "JArr []" "JArr [JStr ''Be concrete'']"]
  by (simp add: evaluation_reply_def required_keys_def slice_stop_def)


text \<open>
  C6. The specification expects every parsed reply that has the four keys to come back as
  a record with a clamped score, and the docstring of \<open>evaluate_answer\<close> promises an
  \<open>HTTPException\<close> for an invalid reply. A reply with all four keys and \<open>null\<close> as its
  score gets neither: \<open>int(None)\<close> raises \<open>TypeError\<close>, which nothing catches.
\<close>

theorem evaluate_answer_null_score_raises:
  "evaluate_answer never_int (evaluation_reply JNull (JArr [])) = Inl (PyError ''TypeError'')"
  by (simp add: evaluate_answer_def extract_json_def evaluation_reply_def required_keys_def
      dict_item_def)

section \<open>The branches of submit\_answer\<close>

text \<open>
  One lemma per way out of \<open>submit_answer\<close>, each through \<open>get_db\<close>: what the caller
  gets and what is committed afterwards.
\<close>

lemma get_db_raises:
  "body (SessionLocal d) = (Inl e, u) \<Longrightarrow> database u = d \<Longrightarrow> get_db body d = (Inl e, d)"
  by (simp add: get_db_def db_close_def db_rollback_def)

lemma submit_answer_session_missing:
  assumes "find (\<lambda>s. s_id s = sid \<and> user_id s = uid) (sessions d) = None"
  shows "get_db (submit_answer str_int post fid sid qid uid answer) d =
           (Inl (HTTPException 404 ''Session not found.''), d)"
  using assms
  by (intro get_db_raises [where u = "SessionLocal d"])
     (simp_all add: submit_answer_def get_session_for_user_def SessionLocal_def)

lemma submit_answer_question_missing:
  assumes "find (\<lambda>s. s_id s = sid \<and> user_id s = uid) (sessions d) = Some session"
      and "find (\<lambda>q. q_id q = qid \<and> session_id q = sid) (questions d) = None"
  shows "get_db (submit_answer str_int post fid sid qid uid answer) d =
           (Inl (HTTPException 404 ''Question not found.''), d)"
  using assms
  by (intro get_db_raises [where u = "SessionLocal d"])
     (simp_all add: submit_answer_def get_session_for_user_def SessionLocal_def)

lemma submit_answer_answered:
  assumes "find (\<lambda>s. s_id s = sid \<and> user_id s = uid) (sessions d) = Some session"
      and "find (\<lambda>q. q_id q = qid \<and> session_id q = sid) (questions d) = Some question"
      and "user_answer question = Some a" and "a \<noteq> []"
  shows "get_db (submit_answer str_int post fid sid qid uid answer) d =
           (Inl (HTTPException 400 ''This question has already been answered.''), d)"
  using assms
  by (intro get_db_raises [where u = "SessionLocal d"])
     (simp_all add: submit_answer_def get_session_for_user_def SessionLocal_def)

lemma submit_answer_evaluation_fails:
  assumes "find (\<lambda>s. s_id s = sid \<and> user_id s = uid) (sessions d) = Some session"
      and "find (\<lambda>q. q_id q = qid \<and> session_id q = sid) (questions d) = Some question"
      and "user_answer question = None \<or> user_answer question = Some []"
      and "evaluate_answer str_int post = Inl e"
  shows "get_db (submit_answer str_int post fid sid qid uid answer) d = (Inl e, d)"
  using assms
  by (intro get_db_raises
        [where u = "db_dirty (Q (question\<lparr>user_answer := Some answer\<rparr>)) (SessionLocal d)"])
     (auto simp add: submit_answer_def get_session_for_user_def SessionLocal_def db_dirty_def)

lemma submit_answer_succeeds:
  assumes "find (\<lambda>s. s_id s = sid \<and> user_id s = uid) (sessions d) = Some session"
      and "find (\<lambda>q. q_id q = qid \<and> session_id q = sid) (questions d) = Some question"
      and "user_answer question = None \<or> user_answer question = Some []"
      and "evaluate_answer str_int post = Inr fd"
  shows "get_db (submit_answer str_int post fid sid qid uid answer) d =
           (Inr \<lparr>r_question_id = qid, r_feedback = feedback_of fid question fd,
                 is_last_question = (question_count session \<le> int (answered_count sid d)),
                 session_complete = (question_count session \<le> int (answered_count sid d))\<rparr>,
            \<lparr>sessions =
               (if question_count session \<le> int (answered_count sid d)
                then map (\<lambda>r. if s_id r = s_id session
                               then completed_row session
                                      (map score (session_feedback sid d) @ [d_score fd])
                               else r) (sessions d)
                else sessions d),
             questions = map (\<lambda>r. if q_id r = q_id question
                                   then question\<lparr>user_answer := Some answer\<rparr> else r)
                           (questions d),
             feedbacks = feedbacks d @ [feedback_of fid question fd]\<rparr>)"
  using assms
  by (auto simp add: get_db_def submit_answer_def get_session_for_user_def SessionLocal_def
      db_dirty_def db_add_def db_commit_def db_flush_def db_close_def Let_def feedback_of_def
      completed_row_def)

lemma submit_answer_success_inv:
  assumes "get_db (submit_answer str_int post fid sid qid uid answer) d = (Inr resp, d')"
  shows "\<exists>session question fd.
           find (\<lambda>s. s_id s = sid \<and> user_id s = uid) (sessions d) = Some session \<and>
           find (\<lambda>q. q_id q = qid \<and> session_id q = sid) (questions d) = Some question \<and>
           (user_answer question = None \<or> user_answer question = Some []) \<and>
           evaluate_answer str_int post = Inr fd"
proof (cases "find (\<lambda>s. s_id s = sid \<and> user_id s = uid) (sessions d)")
  case None
  from submit_answer_session_missing [OF this] assms show ?thesis by simp
next
  case (Some session)
  note s = this
  show ?thesis
  proof (cases "find (\<lambda>q. q_id q = qid \<and> session_id q = sid) (questions d)")
    case None
    from submit_answer_question_missing [OF s this] assms show ?thesis by simp
  next
    case (Some question)
    note q = this
    show ?thesis
    proof (cases "user_answer question = None \<or> user_answer question = Some []")
      case False
      then obtain a where "user_answer question = Some a" "a \<noteq> []" by auto
      from submit_answer_answered [OF s q this] assms show ?thesis by simp
    next
      case True
      show ?thesis
      proof (cases "evaluate_answer str_int post")
        case (Inl e)
        from submit_answer_evaluation_fails [OF s q True Inl] assms show ?thesis by simp
      next
        case (Inr fd)
        with s q True show ?thesis by blast
      qed
    qed
  qed
qed

text \<open>Every way out of \<open>submit_answer\<close> with an error leaves the database as it was.\<close>

lemma submit_answer_error_unchanged:
  assumes "get_db (submit_answer str_int post fid sid qid uid answer) d = (Inl e, d')"
  shows "d' = d"
proof (cases "find (\<lambda>s. s_id s = sid \<and> user_id s = uid) (sessions d)")
  case None
  from submit_answer_session_missing [OF this] assms show ?thesis by simp
next
  case (Some session)
  note s = this
  show ?thesis
  proof (cases "find (\<lambda>q. q_id q = qid \<and> session_id q = sid) (questions d)")
    case None
    from submit_answer_question_missing [OF s this] assms show ?thesis by simp
  next
    case (Some question)
    note q = this
    show ?thesis
    proof (cases "user_answer question = None \<or> user_answer question = Some []")
      case False
      then obtain a where "user_answer question = Some a" "a \<noteq> []" by auto
      from submit_answer_answered [OF s q this] assms show ?thesis by simp
    next
      case True
      show ?thesis
      proof (cases "evaluate_answer str_int post")
        case (Inl e')
        from submit_answer_evaluation_fails [OF s q True Inl] assms show ?thesis by simp
      next
        case (Inr fd)
        from submit_answer_succeeds [OF s q True Inr] assms show ?thesis by simp
      qed
    qed
  qed
qed


text \<open>
  The spec's scenario, run on the model: after \<open>start_session\<close> has left the store
  \<open>started\<close>, the answers to the first and the second question lead to \<open>one_answered\<close>
  and \<open>two_answered\<close>, and the answer to the third to \<open>all_answered\<close>.
\<close>

lemma first_answer_run:
  "get_db (submit_answer never_int (evaluation_reply (JInt 80) (JArr [])) ''f0'' ''s1'' ''q0''
       ''u1'' ''a0'') started =
     (Inr \<lparr>r_question_id = ''q0'', r_feedback = example_feedback ''f0'' ''q0'' 80,
           is_last_question = False, session_complete = False\<rparr>, one_answered)"
  by (simp add: get_db_def submit_answer_def get_session_for_user_def SessionLocal_def
      db_dirty_def db_add_def db_commit_def db_flush_def db_close_def Let_def
      evaluate_answer_def extract_json_def evaluation_reply_def required_keys_def
      dict_item_def slice_stop_def answered_count_def started_def one_answered_def
      example_session_def example_question_def example_feedback_def never_int_def)

lemma second_answer_run:
  "get_db (submit_answer never_int (evaluation_reply (JInt 90) (JArr [])) ''f1'' ''s1'' ''q1''
       ''u1'' ''a1'') one_answered =
     (Inr \<lparr>r_question_id = ''q1'', r_feedback = example_feedback ''f1'' ''q1'' 90,
           is_last_question = False, session_complete = False\<rparr>, two_answered)"
  by (simp add: get_db_def submit_answer_def get_session_for_user_def SessionLocal_def
      db_dirty_def db_add_def db_commit_def db_flush_def db_close_def Let_def
      evaluate_answer_def extract_json_def evaluation_reply_def required_keys_def
      dict_item_def slice_stop_def answered_count_def one_answered_def two_answered_def
      example_session_def example_question_def example_feedback_def never_int_def)

lemma third_answer_run:
  "get_db (submit_answer never_int (evaluation_reply (JInt 70) (JArr [])) ''f2'' ''s1'' ''q2''
       ''u1'' ''a2'') two_answered = (Inr third_response, all_answered)"
  by (simp add: get_db_def submit_answer_def get_session_for_user_def SessionLocal_def
      db_dirty_def db_add_def db_commit_def db_flush_def db_close_def Let_def
      evaluate_answer_def extract_json_def evaluation_reply_def required_keys_def
      dict_item_def slice_stop_def answered_count_def two_answered_def all_answered_def
      third_response_def example_session_def example_question_def example_feedback_def
      never_int_def)

section \<open>Completion\<close>

text \<open>
  C1. The specification expects the call that answers the last open question of a session
  to return \<open>sessionComplete\<close> and \<open>isLastQuestion\<close> true and to complete the session.
  The code counts the answered questions with a query, the session was made with
  \<open>autoflush=False\<close> and the answer just assigned is still pending, so the count leaves
  the current question out. In a store as \<open>start_session\<close> and earlier answers leave it
  (a session has at most \<open>question_count\<close> questions, no answer column holds the empty
  string) every successful \<open>submit_answer\<close> returns both flags false and leaves every
  session row as it was: also the call that answers the last question.
\<close>

theorem submit_answer_never_completes:
  assumes run: "get_db (submit_answer str_int post fid sid qid uid answer) d = (Inr resp, d')"
      and nonempty: "\<forall>q\<in>set (questions d). user_answer q \<noteq> Some []"
      and created: "\<forall>s\<in>set (sessions d). s_id s = sid \<longrightarrow>
                      int (length (filter (\<lambda>q. session_id q = sid) (questions d)))
                        \<le> question_count s"
  shows "\<not> session_complete resp \<and> \<not> is_last_question resp \<and> sessions d' = sessions d"
proof -
  from submit_answer_success_inv [OF run] obtain session question fd where
      s: "find (\<lambda>s. s_id s = sid \<and> user_id s = uid) (sessions d) = Some session"
      and q: "find (\<lambda>q. q_id q = qid \<and> session_id q = sid) (questions d) = Some question"
      and a: "user_answer question = None \<or> user_answer question = Some []"
      and e: "evaluate_answer str_int post = Inr fd"
    by blast
  from s have s_in: "session \<in> set (sessions d)" and s_sid: "s_id session = sid"
    by (auto simp: find_Some_iff)
  from q have q_in: "question \<in> set (questions d)" and q_sid: "session_id question = sid"
    by (auto simp: find_Some_iff)
  from a nonempty q_in have unanswered: "user_answer question = None" by auto
  let ?mine = "filter (\<lambda>q. session_id q = sid) (questions d)"
  have "answered_count sid d = length (filter (\<lambda>q. user_answer q \<noteq> None) ?mine)"
    by (simp add: answered_count_def conj_commute)
  also have "\<dots> < length ?mine"
    by (rule length_filter_less [of question]) (use q_in q_sid unanswered in auto)
  finally have "int (answered_count sid d) < question_count session"
    using created s_in s_sid by fastforce
  then have not_last: "\<not> question_count session \<le> int (answered_count sid d)" by simp
  from submit_answer_succeeds [OF s q a e, of fid answer] run not_last
  show ?thesis by auto
qed

text \<open>
  The theorem at the third answer of a three-question session: two questions are answered
  before the call, three after it, and the flags are false.
\<close>

theorem submit_answer_never_completes_witness:
  "get_db (submit_answer never_int (evaluation_reply (JInt 70) (JArr [])) ''f2'' ''s1'' ''q2''
       ''u1'' ''a2'') two_answered = (Inr third_response, all_answered)
   \<and> list_all (\<lambda>q. user_answer q \<noteq> Some []) (questions two_answered)
   \<and> map question_count (sessions two_answered) = [3]
   \<and> length (filter (\<lambda>q. session_id q = ''s1'') (questions two_answered)) = 3
   \<and> answered_count ''s1'' two_answered = 2
   \<and> answered_count ''s1'' all_answered = 3
   \<and> \<not> session_complete third_response \<and> \<not> is_last_question third_response
   \<and> sessions all_answered = sessions two_answered"
proof -
  have h1: "\<forall>q\<in>set (questions two_answered). user_answer q \<noteq> Some []"
    by (simp add: two_answered_def example_question_def)
  have h2: "\<forall>s\<in>set (sessions two_answered). s_id s = ''s1'' \<longrightarrow>
              int (length (filter (\<lambda>q. session_id q = ''s1'') (questions two_answered)))
                \<le> question_count s"
    by (simp add: two_answered_def example_question_def example_session_def)
  from submit_answer_never_completes [OF third_answer_run h1 h2] third_answer_run
  show ?thesis
    by (simp add: two_answered_def all_answered_def example_question_def example_session_def
        answered_count_def)
qed

section \<open>Failures of submit\_answer\<close>

text \<open>
  C2, as the code has it. When \<open>submit_answer\<close> reaches a question that has no answer and
  the evaluation fails, with status 502 or 503 or with any other exception, the error goes
  to the caller and nothing is committed. When the exception leaves \<open>submit_answer\<close> the
  answer is a pending change of the session and the transaction has seen no write;
  \<open>get_db\<close> rolls the session back, so the question's answer is still null in the
  database, no feedback exists, and the answer can be submitted again.
\<close>

theorem submit_answer_evaluation_failure_rolls_back:
  assumes "find (\<lambda>s. s_id s = sid \<and> user_id s = uid) (sessions d) = Some session"
      and "find (\<lambda>q. q_id q = qid \<and> session_id q = sid) (questions d) = Some question"
      and "user_answer question = None"
      and "evaluate_answer str_int post = Inl e"
  shows "submit_answer str_int post fid sid qid uid answer (SessionLocal d) =
           (Inl e, \<lparr>database = d, tx = d,
                    pending = [Update (Q (question\<lparr>user_answer := Some answer\<rparr>))]\<rparr>)
       \<and> get_db (submit_answer str_int post fid sid qid uid answer) d = (Inl e, d)"
proof
  from assms show "submit_answer str_int post fid sid qid uid answer (SessionLocal d) =
           (Inl e, \<lparr>database = d, tx = d,
                    pending = [Update (Q (question\<lparr>user_answer := Some answer\<rparr>))]\<rparr>)"
    by (simp add: submit_answer_def get_session_for_user_def SessionLocal_def db_dirty_def)
  show "get_db (submit_answer str_int post fid sid qid uid answer) d = (Inl e, d)"
    by (rule submit_answer_evaluation_fails [OF assms(1,2) _ assms(4)]) (simp add: assms(3))
qed

text \<open>The theorem at a reply that is not JSON, on the third question of the session.\<close>

theorem submit_answer_evaluation_failure_rolls_back_witness:
  "find (\<lambda>s. s_id s = ''s1'' \<and> user_id s = ''u1'') (sessions two_answered) = Some example_session
   \<and> find (\<lambda>q. q_id q = ''q2'' \<and> session_id q = ''s1'') (questions two_answered) =
       Some (example_question ''q2'' 2 None)
   \<and> evaluate_answer never_int (Returned (JSONDecodeError ''Expecting value'')) =
       Inl (HTTPException 502
         ''AI returned invalid response during answer evaluation: Expecting value'')
   \<and> get_db (submit_answer never_int (Returned (JSONDecodeError ''Expecting value'')) ''f2''
        ''s1'' ''q2'' ''u1'' ''a2'') two_answered =
       (Inl (HTTPException 502
          ''AI returned invalid response during answer evaluation: Expecting value''),
        two_answered)"
proof -
  have s: "find (\<lambda>s. s_id s = ''s1'' \<and> user_id s = ''u1'') (sessions two_answered) =
      Some example_session"
    by (simp add: two_answered_def example_session_def)
  have q: "find (\<lambda>q. q_id q = ''q2'' \<and> session_id q = ''s1'') (questions two_answered) =
      Some (example_question ''q2'' 2 None)"
    by (simp add: two_answered_def example_question_def)
  have a: "user_answer (example_question ''q2'' 2 None) = None"
    by (simp add: example_question_def)
  have e: "evaluate_answer never_int (Returned (JSONDecodeError ''Expecting value'')) =
      Inl (HTTPException 502
        ''AI returned invalid response during answer evaluation: Expecting value'')"
    by (simp add: evaluate_answer_def extract_json_def)
  from submit_answer_evaluation_failure_rolls_back [OF s q a e] s q e
  show ?thesis by simp
qed

text \<open>
  C2 as stated says that the answer is persisted although the evaluation failed. With the
  provider answering 503 the call fails with 503 and the database is the one before the
  call, in which the third question has no answer.
\<close>

theorem submit_answer_unavailable_counterexample:
  "get_db (submit_answer never_int (Returned (HTTPStatusError ''503 Service Unavailable''))
      ''f2'' ''s1'' ''q2'' ''u1'' ''a2'') two_answered =
     (Inl (HTTPException 503 ''AI service error: 503 Service Unavailable''), two_answered)
   \<and> map user_answer (questions two_answered) = [Some ''a0'', Some ''a1'', None]"
  by (simp add: get_db_def submit_answer_def get_session_for_user_def SessionLocal_def
      db_dirty_def db_close_def db_rollback_def evaluate_answer_def extract_json_def
      two_answered_def example_session_def example_question_def)

text \<open>
  The answer columns stay free of empty strings: \<open>submit_answer\<close> keeps the invariant for
  every answer the request schema admits, and the stores of the scenario have it.
\<close>

lemma no_blank_submit_answer:
  assumes "no_blank d" and "answer \<noteq> []"
      and "get_db (submit_answer str_int post fid sid qid uid answer) d = (r, d')"
  shows "no_blank d'"
proof (cases r)
  case (Inl e)
  with assms submit_answer_error_unchanged show ?thesis by fastforce
next
  case (Inr resp)
  with assms(3) have run: "get_db (submit_answer str_int post fid sid qid uid answer) d =
      (Inr resp, d')" by simp
  from submit_answer_success_inv [OF run] obtain session question fd where
      s: "find (\<lambda>s. s_id s = sid \<and> user_id s = uid) (sessions d) = Some session"
      and q: "find (\<lambda>q. q_id q = qid \<and> session_id q = sid) (questions d) = Some question"
      and a: "user_answer question = None \<or> user_answer question = Some []"
      and e: "evaluate_answer str_int post = Inr fd"
    by blast
  from submit_answer_succeeds [OF s q a e, of fid answer] run
  have "questions d' = map (\<lambda>r. if q_id r = q_id question
                                   then question\<lparr>user_answer := Some answer\<rparr> else r)
                          (questions d)"
    by auto
  with assms(1,2) show ?thesis
    by (auto simp: no_blank_def list_all_iff)
qed

lemma no_blank_scenario:
  "no_blank empty_db \<and> no_blank started \<and> no_blank one_answered \<and> no_blank two_answered
   \<and> no_blank all_answered"
  by (simp add: no_blank_def empty_db_def started_def one_answered_def two_answered_def
      all_answered_def example_question_def)

text \<open>
  C5. In a store whose answer columns hold no empty string, which is every store the
  services produce, a further \<open>submit_answer\<close> on a question whose answer is not null
  fails with status 400 (AlreadyAnswered) before it changes anything: the session has
  nothing pending when the exception leaves, and the database, hence the stored answer and
  every feedback, is unchanged.
\<close>

theorem submit_answer_write_once:
  assumes "no_blank d"
      and "find (\<lambda>s. s_id s = sid \<and> user_id s = uid) (sessions d) = Some session"
      and "find (\<lambda>q. q_id q = qid \<and> session_id q = sid) (questions d) = Some question"
      and "user_answer question \<noteq> None"
  shows "submit_answer str_int post fid sid qid uid answer (SessionLocal d) =
           (Inl (HTTPException 400 ''This question has already been answered.''),
            SessionLocal d)
       \<and> get_db (submit_answer str_int post fid sid qid uid answer) d =
           (Inl (HTTPException 400 ''This question has already been answered.''), d)"
proof -
  from assms(3) have "question \<in> set (questions d)" by (auto simp: find_Some_iff)
  with assms(1) have "user_answer question \<noteq> Some []"
    by (auto simp: no_blank_def list_all_iff)
  with assms(4) obtain a where a: "user_answer question = Some a" "a \<noteq> []" by auto
  from assms(2,3) a
  have "submit_answer str_int post fid sid qid uid answer (SessionLocal d) =
           (Inl (HTTPException 400 ''This question has already been answered.''),
            SessionLocal d)"
    by (simp add: submit_answer_def get_session_for_user_def SessionLocal_def)
  moreover from assms(2,3) a
  have "get_db (submit_answer str_int post fid sid qid uid answer) d =
           (Inl (HTTPException 400 ''This question has already been answered.''), d)"
    by (rule submit_answer_answered)
  ultimately show ?thesis by simp
qed

text \<open>The theorem at a second submission to the first question of the session.\<close>

theorem submit_answer_write_once_witness:
  "no_blank two_answered
   \<and> find (\<lambda>s. s_id s = ''s1'' \<and> user_id s = ''u1'') (sessions two_answered) =
       Some example_session
   \<and> find (\<lambda>q. q_id q = ''q0'' \<and> session_id q = ''s1'') (questions two_answered) =
       Some (example_question ''q0'' 0 (Some ''a0''))
   \<and> get_db (submit_answer never_int (evaluation_reply (JInt 70) (JArr [])) ''f2'' ''s1''
        ''q0'' ''u1'' ''again'') two_answered =
       (Inl (HTTPException 400 ''This question has already been answered.''), two_answered)"
proof -
  have n: "no_blank two_answered"
    by (simp add: no_blank_def two_answered_def example_question_def)
  have s: "find (\<lambda>s. s_id s = ''s1'' \<and> user_id s = ''u1'') (sessions two_answered) =
      Some example_session"
    by (simp add: two_answered_def example_session_def)
  have q: "find (\<lambda>q. q_id q = ''q0'' \<and> session_id q = ''s1'') (questions two_answered) =
      Some (example_question ''q0'' 0 (Some ''a0''))"
    by (simp add: two_answered_def example_question_def)
  have a: "user_answer (example_question ''q0'' 0 (Some ''a0'')) \<noteq> None"
    by (simp add: example_question_def)
  from submit_answer_write_once [OF n s q a] n s q show ?thesis by simp
qed

lemma find_none_other_owner:
  assumes "s2 \<in> set xs" and "s_id s2 = sid" and "user_id s2 \<noteq> uid"
      and "distinct (map s_id xs)"
  shows "find (\<lambda>s. s_id s = sid \<and> user_id s = uid) xs = None"
proof -
  have "s = s2" if "s \<in> set xs" "s_id s = sid" for s
    using that assms(1,2,4) by (auto simp: distinct_map dest: inj_onD)
  with assms(3) show ?thesis by (auto simp: find_None_iff)
qed

text \<open>
  C8. For a session identifier and a caller, \<open>submit_answer\<close> fails in the same way
  when no session has the identifier (store \<open>d1\<close>) and when the session with the
  identifier belongs to another user (store \<open>d2\<close>): status 404 with the one detail
  text of a session not found in both runs, whatever the provider would have answered, and both
  stores unchanged.
\<close>

theorem submit_answer_not_found_uniform:
  assumes absent: "\<forall>s\<in>set (sessions d1). s_id s \<noteq> sid"
      and other: "s2 \<in> set (sessions d2)" "s_id s2 = sid" "user_id s2 \<noteq> uid"
      and keys: "distinct (map s_id (sessions d2))"
  shows "get_db (submit_answer str_int post1 fid1 sid qid uid answer) d1 =
           (Inl (HTTPException 404 ''Session not found.''), d1)
       \<and> get_db (submit_answer str_int post2 fid2 sid qid uid answer) d2 =
           (Inl (HTTPException 404 ''Session not found.''), d2)
       \<and> fst (get_db (submit_answer str_int post1 fid1 sid qid uid answer) d1) =
         fst (get_db (submit_answer str_int post2 fid2 sid qid uid answer) d2)"
proof -
  from absent have "find (\<lambda>s. s_id s = sid \<and> user_id s = uid) (sessions d1) = None"
    by (auto simp: find_None_iff)
  from submit_answer_session_missing [OF this]
  have 1: "get_db (submit_answer str_int post1 fid1 sid qid uid answer) d1 =
           (Inl (HTTPException 404 ''Session not found.''), d1)" .
  from submit_answer_session_missing [OF find_none_other_owner [OF other keys]]
  have 2: "get_db (submit_answer str_int post2 fid2 sid qid uid answer) d2 =
           (Inl (HTTPException 404 ''Session not found.''), d2)" .
  from 1 2 show ?thesis by simp
qed

text \<open>
  The theorem for caller \<open>u2\<close> and session \<open>s1\<close>: on the empty store, and on a store
  where \<open>s1\<close> belongs to \<open>u1\<close>.
\<close>

theorem submit_answer_not_found_uniform_witness:
  "list_all (\<lambda>s. s_id s \<noteq> ''s1'') (sessions empty_db)
   \<and> example_session \<in> set (sessions two_answered) \<and> s_id example_session = ''s1''
   \<and> user_id example_session \<noteq> ''u2'' \<and> distinct (map s_id (sessions two_answered))
   \<and> get_db (submit_answer never_int (evaluation_reply (JInt 70) (JArr [])) ''f2'' ''s1''
        ''q2'' ''u2'' ''a2'') empty_db =
       (Inl (HTTPException 404 ''Session not found.''), empty_db)
   \<and> get_db (submit_answer never_int (evaluation_reply (JInt 70) (JArr [])) ''f2'' ''s1''
        ''q2'' ''u2'' ''a2'') two_answered =
       (Inl (HTTPException 404 ''Session not found.''), two_answered)"
proof -
  have a: "\<forall>s\<in>set (sessions empty_db). s_id s \<noteq> ''s1''" by (simp add: empty_db_def)
  have o: "example_session \<in> set (sessions two_answered)" "s_id example_session = ''s1''"
      "user_id example_session \<noteq> ''u2''"
    by (simp_all add: two_answered_def example_session_def)
  have k: "distinct (map s_id (sessions two_answered))" by (simp add: two_answered_def)
  from submit_answer_not_found_uniform [OF a o k] o k show ?thesis
    by (simp add: empty_db_def)
qed

section \<open>The frame of submit\_answer\<close>

lemma map_update_unique:
  assumes "distinct (map key xs)" and "x \<in> set xs"
  shows "map (\<lambda>r. if key r = key x then f x else r) xs =
         map (\<lambda>r. if key r = key x then f r else r) xs"
proof (rule map_cong [OF refl])
  fix r assume "r \<in> set xs"
  with assms have "key r = key x \<Longrightarrow> r = x"
    by (auto simp: distinct_map dest: inj_onD)
  then show "(if key r = key x then f x else r) = (if key r = key x then f r else r)"
    by auto
qed

text \<open>
  C10. In a store with unique primary keys, a successful \<open>submit_answer\<close> on question
  \<open>qid\<close> of session \<open>sid\<close> changes the question rows only in the \<open>user_answer\<close> of
  that question, appends exactly one feedback row, the one it returns, linked to that
  question, and changes the session rows only when completion triggers, and then only in
  \<open>final_score\<close> and \<open>is_completed\<close> of that session. Every other question, every
  earlier feedback, the question's text and order index and the session's role, difficulty
  and question count are as before.
\<close>

theorem submit_answer_frame:
  assumes run: "get_db (submit_answer str_int post fid sid qid uid answer) d = (Inr resp, d')"
      and session_keys: "distinct (map s_id (sessions d))"
      and question_keys: "distinct (map q_id (questions d))"
  shows "questions d' =
           map (\<lambda>q. if q_id q = qid then q\<lparr>user_answer := Some answer\<rparr> else q) (questions d)
       \<and> feedbacks d' = feedbacks d @ [r_feedback resp]
       \<and> question_id (r_feedback resp) = qid
       \<and> (\<exists>x. sessions d' =
                map (\<lambda>s. if s_id s = sid \<and> session_complete resp
                           then s\<lparr>final_score := Some x, is_completed := ''true''\<rparr> else s)
                  (sessions d))"
proof -
  from submit_answer_success_inv [OF run] obtain session question fd where
      s: "find (\<lambda>s. s_id s = sid \<and> user_id s = uid) (sessions d) = Some session"
      and q: "find (\<lambda>q. q_id q = qid \<and> session_id q = sid) (questions d) = Some question"
      and a: "user_answer question = None \<or> user_answer question = Some []"
      and e: "evaluate_answer str_int post = Inr fd"
    by blast
  from s have s_in: "session \<in> set (sessions d)" and s_sid: "s_id session = sid"
    by (auto simp: find_Some_iff)
  from q have q_in: "question \<in> set (questions d)" and q_qid: "q_id question = qid"
    by (auto simp: find_Some_iff)
  let ?last = "question_count session \<le> int (answered_count sid d)"
  let ?scores = "map score (session_feedback sid d) @ [d_score fd]"
  from submit_answer_succeeds [OF s q a e, of fid answer] run
  have resp: "resp = \<lparr>r_question_id = qid, r_feedback = feedback_of fid question fd,
                       is_last_question = ?last, session_complete = ?last\<rparr>"
    and qs: "questions d' = map (\<lambda>r. if q_id r = q_id question
                                       then question\<lparr>user_answer := Some answer\<rparr> else r)
                              (questions d)"
    and fs: "feedbacks d' = feedbacks d @ [feedback_of fid question fd]"
    and ss: "sessions d' =
               (if ?last
                then map (\<lambda>r. if s_id r = s_id session then completed_row session ?scores else r)
                       (sessions d)
                else sessions d)"
    by auto
  have 1: "questions d' =
           map (\<lambda>q. if q_id q = qid then q\<lparr>user_answer := Some answer\<rparr> else q) (questions d)"
    using map_update_unique [OF question_keys q_in, of "\<lambda>r. r\<lparr>user_answer := Some answer\<rparr>"]
      qs q_qid by simp
  have 2: "feedbacks d' = feedbacks d @ [r_feedback resp]"
    using fs resp by simp
  have 3: "question_id (r_feedback resp) = qid"
    using resp q_qid by (simp add: feedback_of_def)
  have 4: "sessions d' =
             map (\<lambda>s. if s_id s = sid \<and> session_complete resp
                        then s\<lparr>final_score := Some (mean ?scores), is_completed := ''true''\<rparr>
                        else s) (sessions d)"
  proof (cases ?last)
    case True
    have "map (\<lambda>r. if s_id r = s_id session then completed_row session ?scores else r)
            (sessions d) =
          map (\<lambda>r. if s_id r = s_id session then completed_row r ?scores else r) (sessions d)"
      by (rule map_update_unique [OF session_keys s_in, of "\<lambda>r. completed_row r ?scores"])
    with ss True have "sessions d' =
        map (\<lambda>r. if s_id r = sid then completed_row r ?scores else r) (sessions d)"
      by (simp add: s_sid)
    moreover from resp True have "session_complete resp" by simp
    ultimately show ?thesis by (simp add: completed_row_def)
  next
    case False
    with resp have "\<not> session_complete resp" by simp
    with ss False show ?thesis by simp
  qed
  from 1 2 3 4 show ?thesis by blast
qed

text \<open>The theorem at the third answer of the three-question session.\<close>

theorem submit_answer_frame_witness:
  "get_db (submit_answer never_int (evaluation_reply (JInt 70) (JArr [])) ''f2'' ''s1'' ''q2''
       ''u1'' ''a2'') two_answered = (Inr third_response, all_answered)
   \<and> distinct (map s_id (sessions two_answered))
   \<and> distinct (map q_id (questions two_answered))
   \<and> questions all_answered =
       map (\<lambda>q. if q_id q = ''q2'' then q\<lparr>user_answer := Some ''a2''\<rparr> else q)
         (questions two_answered)
   \<and> feedbacks all_answered = feedbacks two_answered @ [r_feedback third_response]
   \<and> question_id (r_feedback third_response) = ''q2''
   \<and> sessions all_answered = sessions two_answered"
proof -
  have k1: "distinct (map s_id (sessions two_answered))"
    by (simp add: two_answered_def)
  have k2: "distinct (map q_id (questions two_answered))"
    by (simp add: two_answered_def example_question_def)
  from submit_answer_frame [OF third_answer_run k1 k2] third_answer_run k1 k2
  show ?thesis
    by (simp add: third_response_def two_answered_def all_answered_def)
qed

section \<open>The completing branch\<close>




section \<open>Properties of start\_session\<close>

lemma fold_db_add:
  "fold (\<lambda>it. db_add (f it)) xs u = u\<lparr>pending := pending u @ map (\<lambda>it. Insert (f it)) xs\<rparr>"
  by (induction xs arbitrary: u) (simp_all add: db_add_def)

lemma foldl_insert_questions:
  "foldl apply_op d (map (\<lambda>it. Insert (Q (g it))) xs) = d\<lparr>questions := questions d @ map g xs\<rparr>"
  by (induction xs arbitrary: d) simp_all

lemma generate_questions_iter:
  assumes "generate_questions post n = Inr qt"
  shows "\<exists>texts. py_iter qt = Inr texts"
proof -
  from assms obtain v where "py_slice v n = Inr qt"
    by (auto simp: generate_questions_def split: post_result.splits sum.splits if_splits)
  then show ?thesis by (cases v) auto
qed

lemma start_session_generation_fails:
  assumes "generate_questions post (req_question_count data) = Inl e"
  shows "start_session post sid qid now uid data (SessionLocal d) =
           (Inl e, \<lparr>database = d,
                    tx = d\<lparr>sessions := sessions d @ [new_session sid now uid data]\<rparr>,
                    pending = []\<rparr>)"
  using assms
  by (simp add: start_session_def SessionLocal_def db_add_def db_flush_def new_session_def)

lemma start_session_rolled_back:
  assumes "generate_questions post (req_question_count data) = Inl e"
  shows "get_db (start_session post sid qid now uid data) d = (Inl e, d)"
  by (simp add: get_db_def start_session_generation_fails [OF assms] db_close_def
      db_rollback_def)

lemma start_session_succeeds:
  assumes "generate_questions post (req_question_count data) = Inr qt"
      and "py_iter qt = Inr texts"
  shows "\<exists>resp. get_db (start_session post sid qid now uid data) d =
           (Inr resp,
            \<lparr>sessions = sessions d @ [new_session sid now uid data],
             questions = questions d @ map (new_question qid sid) (enumerate 0 texts),
             feedbacks = feedbacks d\<rparr>)"
  using assms
  by (simp add: get_db_def start_session_def SessionLocal_def db_add_def db_flush_def
      db_commit_def db_close_def new_session_def Let_def fold_db_add foldl_insert_questions)

text \<open>\<open>start_session\<close> keeps the answer columns free of empty strings.\<close>

lemma no_blank_start_session:
  assumes "no_blank d" and "get_db (start_session post sid qid now uid data) d = (r, d')"
  shows "no_blank d'"
proof (cases "generate_questions post (req_question_count data)")
  case (Inl e)
  from start_session_rolled_back [OF this] assms show ?thesis by simp
next
  case (Inr qt)
  then obtain texts where "py_iter qt = Inr texts"
    using generate_questions_iter by blast
  from start_session_succeeds [OF Inr this, of sid qid now uid d] assms show ?thesis
    by (auto simp: no_blank_def list_all_iff new_question_def)
qed

text \<open>
  C3. \<open>start_session\<close> is all or nothing. When \<open>generate_questions\<close> fails, with
  status 502 or 503 or any other exception, the call fails with that error and the
  database is unchanged: the session row, which the flush had inserted inside the
  transaction, is rolled back, so no later read sees a session or a question. When it
  succeeds, with question texts \<open>ts\<close>, one commit adds the session row and all its
  question rows.
\<close>

theorem start_session_all_or_nothing:
  "(generate_questions post (req_question_count data) = Inl e \<longrightarrow>
      get_db (start_session post sid qid now uid data) d = (Inl e, d)
      \<and> sessions (tx (snd (start_session post sid qid now uid data (SessionLocal d)))) =
          sessions d @ [new_session sid now uid data])
   \<and> (generate_questions post (req_question_count data) = Inr qt \<and>
      py_iter qt = Inr (map JStr ts) \<longrightarrow>
      (\<exists>resp.
         get_db (start_session post sid qid now uid data) d =
           (Inr resp,
            \<lparr>sessions = sessions d @ [new_session sid now uid data],
             questions = questions d @
               map (new_question qid sid) (enumerate 0 (map JStr ts)),
             feedbacks = feedbacks d\<rparr>)))"
proof (intro conjI impI)
  assume f: "generate_questions post (req_question_count data) = Inl e"
  show "get_db (start_session post sid qid now uid data) d = (Inl e, d)"
    by (rule start_session_rolled_back [OF f])
  show "sessions (tx (snd (start_session post sid qid now uid data (SessionLocal d)))) =
          sessions d @ [new_session sid now uid data]"
    by (simp add: start_session_generation_fails [OF f])
next
  assume "generate_questions post (req_question_count data) = Inr qt \<and>
      py_iter qt = Inr (map JStr ts)"
  then have s: "generate_questions post (req_question_count data) = Inr qt"
    and t: "py_iter qt = Inr (map JStr ts)" by simp_all
  from start_session_succeeds [OF s t]
  show "\<exists>resp.
         get_db (start_session post sid qid now uid data) d =
           (Inr resp,
            \<lparr>sessions = sessions d @ [new_session sid now uid data],
             questions = questions d @
               map (new_question qid sid) (enumerate 0 (map JStr ts)),
             feedbacks = feedbacks d\<rparr>)" .
qed

text \<open>The theorem at a provider answering 503 and at a provider returning three questions.\<close>

theorem start_session_all_or_nothing_witness:
  "generate_questions (Returned (HTTPStatusError ''503 Service Unavailable'')) 3 =
     Inl (HTTPException 503 ''AI service error: 503 Service Unavailable'')
   \<and> get_db (start_session (Returned (HTTPStatusError ''503 Service Unavailable'')) ''s1''
        example_qid 10 ''u1'' example_request) empty_db =
       (Inl (HTTPException 503 ''AI service error: 503 Service Unavailable''), empty_db)
   \<and> sessions (tx (snd (start_session (Returned (HTTPStatusError ''503 Service Unavailable''))
        ''s1'' example_qid 10 ''u1'' example_request (SessionLocal empty_db)))) =
       [example_session]
   \<and> generate_questions
        (questions_reply [JStr ''Question q0'', JStr ''Question q1'', JStr ''Question q2'']) 3 =
       Inr (JArr [JStr ''Question q0'', JStr ''Question q1'', JStr ''Question q2''])
   \<and> snd (get_db (start_session
        (questions_reply [JStr ''Question q0'', JStr ''Question q1'', JStr ''Question q2''])
        ''s1'' example_qid 10 ''u1'' example_request) empty_db) = started"
proof -
  have f: "generate_questions (Returned (HTTPStatusError ''503 Service Unavailable''))
             (req_question_count example_request) =
           Inl (HTTPException 503 ''AI service error: 503 Service Unavailable'')"
    by (simp add: generate_questions_def extract_json_def)
  have g: "generate_questions
             (questions_reply [JStr ''Question q0'', JStr ''Question q1'', JStr ''Question q2''])
             (req_question_count example_request) =
           Inr (JArr [JStr ''Question q0'', JStr ''Question q1'', JStr ''Question q2''])"
    by (simp add: generate_questions_def extract_json_def questions_reply_def
        example_request_def slice_stop_def)
  have t: "py_iter (JArr [JStr ''Question q0'', JStr ''Question q1'', JStr ''Question q2'']) =
           Inr (map JStr [''Question q0'', ''Question q1'', ''Question q2''])"
    by simp
  have n: "req_question_count example_request = 3" by (simp add: example_request_def)
  have new: "new_session ''s1'' 10 ''u1'' example_request = example_session"
    by (simp add: new_session_def example_request_def example_session_def)
  have rows: "map (new_question example_qid ''s1'')
                (enumerate 0 (map JStr [''Question q0'', ''Question q1'', ''Question q2''])) =
              questions started"
    by (simp add: new_question_def example_qid_def started_def example_question_def)
  from start_session_all_or_nothing
         [of "Returned (HTTPStatusError ''503 Service Unavailable'')" example_request
             "HTTPException 503 ''AI service error: 503 Service Unavailable''"
             "''s1''" example_qid 10 "''u1''" empty_db] f
  have 1: "get_db (start_session (Returned (HTTPStatusError ''503 Service Unavailable'')) ''s1''
             example_qid 10 ''u1'' example_request) empty_db =
           (Inl (HTTPException 503 ''AI service error: 503 Service Unavailable''), empty_db)"
    and 2: "sessions (tx (snd (start_session
             (Returned (HTTPStatusError ''503 Service Unavailable''))
             ''s1'' example_qid 10 ''u1'' example_request (SessionLocal empty_db)))) =
           [example_session]"
    by (simp_all add: new empty_db_def)
  from start_session_all_or_nothing
         [of "questions_reply [JStr ''Question q0'', JStr ''Question q1'', JStr ''Question q2'']"
             example_request _ "''s1''" example_qid 10 "''u1''" empty_db
             "JArr [JStr ''Question q0'', JStr ''Question q1'', JStr ''Question q2'']"
             "[''Question q0'', ''Question q1'', ''Question q2'']"] g t
  obtain resp where
      r: "get_db (start_session
                (questions_reply
                   [JStr ''Question q0'', JStr ''Question q1'', JStr ''Question q2''])
                ''s1'' example_qid 10 ''u1'' example_request) empty_db =
              (Inr resp,
               \<lparr>sessions = sessions empty_db @ [new_session ''s1'' 10 ''u1'' example_request],
                questions = questions empty_db @
                  map (new_question example_qid ''s1'')
                    (enumerate 0 (map JStr [''Question q0'', ''Question q1'', ''Question q2''])),
                feedbacks = feedbacks empty_db\<rparr>)"
    by blast
  then have 3: "snd (get_db (start_session
        (questions_reply [JStr ''Question q0'', JStr ''Question q1'', JStr ''Question q2''])
        ''s1'' example_qid 10 ''u1'' example_request) empty_db) = started"
    by (simp only: snd_conv new rows) (simp add: empty_db_def started_def)
  from f g 1 2 3 show ?thesis by (simp add: n)
qed

lemma enumerate_take_questions:
  assumes "n \<le> length ts"
  shows "map (new_question qid sid) (enumerate 0 (take n (map JStr ts))) =
           map (\<lambda>i. \<lparr>q_id = qid i, session_id = sid, question_text = JStr (ts ! i),
                      user_answer = None, order_index = int i\<rparr>) [0..<n]"
  using assms
  by (intro nth_equalityI) (simp_all add: new_question_def nth_enumerate_eq)

lemma generate_questions_list:
  assumes "map_of kvs ''questions'' = Some (JArr qs)" and "0 < n"
  shows "generate_questions (Returned (Content (JObj kvs))) (int n) =
           (if length qs < n
            then Inl (HTTPException 502 ''AI did not return the expected number of questions.'')
            else Inr (JArr (take n qs)))"
  using assms
  by (cases qs) (simp_all add: generate_questions_def extract_json_def slice_stop_def)

text \<open>
  C7. Let the provider return a JSON list of question strings \<open>ts\<close> and let \<open>n > 0\<close>
  questions be requested (the request schema admits 3 to 10). With fewer than \<open>n\<close>
  questions returned, \<open>start_session\<close> fails with status 502 (UpstreamInvalid) and
  persists nothing: it never pads. Otherwise it succeeds and persists exactly \<open>n\<close>
  question rows, the first \<open>n\<close> of \<open>ts\<close> in the provider's order, with
  \<open>order_index\<close> 0, 1, ..., n - 1: what the provider returned beyond \<open>n\<close> is cut off.
\<close>

theorem start_session_question_rows:
  assumes "map_of kvs ''questions'' = Some (JArr (map JStr ts))"
      and "req_question_count data = int n" and "0 < n"
  shows "(length ts < n \<longrightarrow>
            get_db (start_session (Returned (Content (JObj kvs))) sid qid now uid data) d =
              (Inl (HTTPException 502 ''AI did not return the expected number of questions.''), d))
       \<and> (n \<le> length ts \<longrightarrow>
            (\<exists>resp. get_db (start_session (Returned (Content (JObj kvs))) sid qid now uid data) d =
              (Inr resp,
               \<lparr>sessions = sessions d @ [new_session sid now uid data],
                questions = questions d @
                  map (\<lambda>i. \<lparr>q_id = qid i, session_id = sid, question_text = JStr (ts ! i),
                             user_answer = None, order_index = int i\<rparr>) [0..<n],
                feedbacks = feedbacks d\<rparr>)))"
proof (intro conjI impI)
  assume "length ts < n"
  then have "generate_questions (Returned (Content (JObj kvs))) (req_question_count data) =
      Inl (HTTPException 502 ''AI did not return the expected number of questions.'')"
    using generate_questions_list [OF assms(1,3)] assms(2) by simp
  then show "get_db (start_session (Returned (Content (JObj kvs))) sid qid now uid data) d =
      (Inl (HTTPException 502 ''AI did not return the expected number of questions.''), d)"
    by (rule start_session_rolled_back)
next
  assume le: "n \<le> length ts"
  then have "generate_questions (Returned (Content (JObj kvs))) (req_question_count data) =
      Inr (JArr (take n (map JStr ts)))"
    using generate_questions_list [OF assms(1,3)] assms(2) by simp
  from start_session_succeeds [OF this, of "take n (map JStr ts)"]
  show "\<exists>resp. get_db (start_session (Returned (Content (JObj kvs))) sid qid now uid data) d =
              (Inr resp,
               \<lparr>sessions = sessions d @ [new_session sid now uid data],
                questions = questions d @
                  map (\<lambda>i. \<lparr>q_id = qid i, session_id = sid, question_text = JStr (ts ! i),
                             user_answer = None, order_index = int i\<rparr>) [0..<n],
                feedbacks = feedbacks d\<rparr>)"
    by (simp add: enumerate_take_questions [OF le])
qed

text \<open>
  The theorem for three questions requested: at a provider returning two questions, and at a
  provider returning four.
\<close>

theorem start_session_question_rows_witness:
  "get_db (start_session (questions_reply [JStr ''Question q0'', JStr ''Question q1''])
      ''s1'' example_qid 10 ''u1'' example_request) empty_db =
     (Inl (HTTPException 502 ''AI did not return the expected number of questions.''), empty_db)
   \<and> snd (get_db (start_session
        (questions_reply [JStr ''Question q0'', JStr ''Question q1'', JStr ''Question q2'',
                          JStr ''Question q3''])
        ''s1'' example_qid 10 ''u1'' example_request) empty_db) = started
   \<and> map order_index (questions started) = [0, 1, 2]"
proof -
  have n: "req_question_count example_request = int 3" by (simp add: example_request_def)
  have new: "new_session ''s1'' 10 ''u1'' example_request = example_session"
    by (simp add: new_session_def example_request_def example_session_def)
  have up: "[0..<3] = [0, 1, 2]" by (simp add: upt_rec)
  from start_session_question_rows
         [of "[(''questions'', JArr [JStr ''Question q0'', JStr ''Question q1''])]"
             "[''Question q0'', ''Question q1'']" example_request 3
             "''s1''" example_qid 10 "''u1''" empty_db, OF _ n]
       start_session_question_rows
         [of "[(''questions'', JArr [JStr ''Question q0'', JStr ''Question q1'',
                                      JStr ''Question q2'', JStr ''Question q3''])]"
             "[''Question q0'', ''Question q1'', ''Question q2'', ''Question q3'']"
             example_request 3 "''s1''" example_qid 10 "''u1''" empty_db, OF _ n]
  show ?thesis
    by (auto simp: questions_reply_def new up empty_db_def started_def example_qid_def
        example_question_def)
qed

section \<open>Properties of get\_history\<close>

lemma sql_limit_in_range:
  assumes "0 \<le> limit" and "limit < 2 ^ 63"
  shows "sql_limit limit rows = Inr (take (nat limit) rows)"
  using assms by (simp add: sql_limit_def)

text \<open>
  C9, as the code has it. For a limit from 0 to 2^63 - 1, \<open>get_history\<close> returns at most
  \<open>limit\<close> items. They are the first \<open>limit\<close> of the user's completed sessions (the rows
  of that user whose \<open>is_completed\<close> is the string true) in an order of descending
  creation time, each projected to its id, role, difficulty, question count, score and
  \<open>created_at\<close> (which the code reports as \<open>completed_at\<close>), where the score is
  \<open>final_score\<close>, or 0 when \<open>final_score\<close> is null.
\<close>

theorem get_history_recent_completed:
  assumes "0 \<le> limit" and "limit < 2 ^ 63"
  shows "\<exists>items ordered.
           get_history uid limit u = Inr items
         \<and> int (length items) \<le> limit
         \<and> mset ordered = mset (completed_sessions uid (tx u))
         \<and> sorted_wrt (\<lambda>a b. created_at b \<le> created_at a) ordered
         \<and> items = map history_item (take (nat limit) ordered)
         \<and> (\<forall>s. s \<in> set (completed_sessions uid (tx u)) \<longleftrightarrow>
               s \<in> set (sessions (tx u)) \<and> user_id s = uid \<and> is_completed s = ''true'')
         \<and> (\<forall>s. history_item s =
               \<lparr>h_id = s_id s, h_role = role s, h_difficulty = difficulty s,
                h_question_count = question_count s,
                h_score = (case final_score s of None \<Rightarrow> 0 | Some x \<Rightarrow> x),
                h_completed_at = created_at s\<rparr>)"
proof -
  let ?ordered = "sort_key (\<lambda>s. - created_at s) (completed_sessions uid (tx u))"
  let ?items = "map history_item (take (nat limit) ?ordered)"
  have 1: "get_history uid limit u = Inr ?items"
    by (simp add: get_history_def sql_limit_in_range [OF assms])
  have 2: "int (length ?items) \<le> limit" using assms(1) by simp
  have 3: "mset ?ordered = mset (completed_sessions uid (tx u))" by simp
  have "sorted (map (\<lambda>s. - created_at s) ?ordered)" by (rule sorted_sort_key)
  then have 4: "sorted_wrt (\<lambda>a b. created_at b \<le> created_at a) ?ordered"
    by (simp add: sorted_map)
  have 5: "\<forall>s. s \<in> set (completed_sessions uid (tx u)) \<longleftrightarrow>
               s \<in> set (sessions (tx u)) \<and> user_id s = uid \<and> is_completed s = ''true''"
    by (auto simp: completed_sessions_def)
  have 6: "\<forall>s. history_item s =
               \<lparr>h_id = s_id s, h_role = role s, h_difficulty = difficulty s,
                h_question_count = question_count s,
                h_score = (case final_score s of None \<Rightarrow> 0 | Some x \<Rightarrow> x),
                h_completed_at = created_at s\<rparr>"
    by (simp add: history_item_def split: option.split)
  from 1 2 3 4 5 6 show ?thesis by blast
qed

text \<open>
  The theorem at limit 2 on a store with three completed sessions of \<open>u1\<close>, one open
  session of \<open>u1\<close> and one completed session of \<open>u2\<close>.
\<close>

theorem get_history_recent_completed_witness:
  "get_history ''u1'' 2 (SessionLocal history_db) =
     Inr [\<lparr>h_id = ''s2'', h_role = ''Backend Engineer'', h_difficulty = ''Easy'',
           h_question_count = 3, h_score = 0, h_completed_at = 30\<rparr>,
          \<lparr>h_id = ''s5'', h_role = ''Backend Engineer'', h_difficulty = ''Easy'',
           h_question_count = 3, h_score = 60, h_completed_at = 20\<rparr>]"
proof -
  have l: "(0::int) \<le> 2" "(2::int) < 2 ^ 63" by simp_all
  from get_history_recent_completed [OF l, of "''u1''" "SessionLocal history_db"]
  show ?thesis
    by (simp add: get_history_def sql_limit_def completed_sessions_def SessionLocal_def
        history_db_def history_session_def history_item_def)
qed

text \<open>
  C9 as stated covers every limit. The endpoint passes any integer on, and with limit -1
  the same store yields all three completed sessions of \<open>u1\<close>: more than the limit.
\<close>

theorem get_history_negative_limit_counterexample:
  "get_history ''u1'' (- 1) (SessionLocal history_db) =
     Inr [\<lparr>h_id = ''s2'', h_role = ''Backend Engineer'', h_difficulty = ''Easy'',
           h_question_count = 3, h_score = 0, h_completed_at = 30\<rparr>,
          \<lparr>h_id = ''s5'', h_role = ''Backend Engineer'', h_difficulty = ''Easy'',
           h_question_count = 3, h_score = 60, h_completed_at = 20\<rparr>,
          \<lparr>h_id = ''s1'', h_role = ''Backend Engineer'', h_difficulty = ''Easy'',
           h_question_count = 3, h_score = 80, h_completed_at = 10\<rparr>]"
  by (simp add: get_history_def sql_limit_def completed_sessions_def SessionLocal_def
      history_db_def history_session_def history_item_def)

text \<open>A limit beyond the signed 64-bit range does not reach the engine.\<close>

lemma get_history_overflow:
  "get_history ''u1'' (2 ^ 63) (SessionLocal history_db) = Inl (PyError ''OverflowError'')"
  by (simp add: get_history_def sql_limit_def)

end
